theory Spec2Isabelle
  imports Main "HOL-Library.Word"
begin

section \<open>The listing notifier: acquisition, dedup and notification pipeline\<close>

text \<open>
  A shallow embedding of \<^verbatim>\<open>main.py\<close> and \<^verbatim>\<open>models.py\<close>. Everything outside the two
  files is an explicit input of the model, collected in the record \<open>environment\<close>: what
  the browser returns for one page visit, whether a store round trip raises, whether mail
  submission raises, the clock, and the module namespace in which \<^verbatim>\<open>process_listings\<close>
  resolves its one free name.
\<close>

subsection \<open>The in-page callback: splitting the meta text (main.py, lines 205-222)\<close>

text \<open>
  The callback runs in the page, so its strings are JavaScript strings: sequences of
  UTF-16 code units. \<open>js\<close> writes an ASCII literal as such a sequence.
\<close>

type_synonym js_string = "16 word list"

definition js :: "string \<Rightarrow> js_string" where
  "js s = map (\<lambda>c. of_nat (of_char c)) s"

text \<open>\<^verbatim>\<open>s.startsWith(p)\<close>, also used for Python's \<^verbatim>\<open>str.split\<close> below.\<close>

fun starts_with :: "'a list \<Rightarrow> 'a list \<Rightarrow> bool" where
  "starts_with [] s = True"
| "starts_with (p # ps) [] = False"
| "starts_with (p # ps) (c # cs) = (p = c \<and> starts_with ps cs)"

text \<open>
  \<^verbatim>\<open>s.split(sep)\<close> for a non-empty separator, in JavaScript and in Python alike: the
  pieces between the occurrences of \<open>sep\<close>, found left to right without overlap.
  \<open>cur\<close> is the piece being read. (With an empty separator JavaScript cuts between
  code units and Python raises; no call of the program passes one, and the function then
  returns the text as one piece.)
\<close>

function split_from :: "'a list \<Rightarrow> 'a list \<Rightarrow> 'a list \<Rightarrow> 'a list list" where
  "split_from sep cur [] = [cur]"
| "split_from sep cur (c # cs) =
     (if sep \<noteq> [] \<and> starts_with sep (c # cs)
      then cur # split_from sep [] (drop (length sep) (c # cs))
      else split_from sep (cur @ [c]) cs)"
  by pat_completeness auto
termination
  by (relation "measure (\<lambda>(sep, cur, s). length s)") (auto simp: neq_Nil_conv)

definition split :: "'a list \<Rightarrow> 'a list \<Rightarrow> 'a list list" where
  "split sep s = split_from sep [] s"

text \<open>
  \<^verbatim>\<open>String.prototype.trim\<close> removes white space and line terminators from both ends:
  TAB, LF, VT, FF, CR, SPACE, NBSP, the space separators of Unicode, LS, PS and the
  byte order mark.
\<close>

definition js_white_space :: "16 word list" where
  "js_white_space =
     [0x0009, 0x000A, 0x000B, 0x000C, 0x000D, 0x0020, 0x00A0, 0x1680,
      0x2000, 0x2001, 0x2002, 0x2003, 0x2004, 0x2005, 0x2006, 0x2007, 0x2008, 0x2009, 0x200A,
      0x2028, 0x2029, 0x202F, 0x205F, 0x3000, 0xFEFF]"

definition is_js_white_space :: "16 word \<Rightarrow> bool" where
  "is_js_white_space c = (c \<in> set js_white_space)"

definition js_trim :: "js_string \<Rightarrow> js_string" where
  "js_trim s = rev (dropWhile is_js_white_space (rev (dropWhile is_js_white_space s)))"

text \<open>
  The separator literal of line 214, as the source file holds it: the two characters
  U+00C2 U+00B7 (the bytes C3 82 C2 B7 of the file), not the single middle dot U+00B7.
\<close>

definition META_SEPARATOR :: js_string where
  "META_SEPARATOR = [0x00C2, 0x00B7]"

definition MIDDLE_DOT :: js_string where
  "MIDDLE_DOT = [0x00B7]"

text \<open>
  \<^verbatim>\<open>const [posted_time, location] = meta_el.textContent.split(sep)\<close> followed by
  \<^verbatim>\<open>posted_time.trim()\<close> and \<^verbatim>\<open>location.trim()\<close>. The destructuring takes the first two
  pieces and ignores the others; with a single piece \<open>location\<close> is \<^verbatim>\<open>undefined\<close> and
  \<^verbatim>\<open>location.trim()\<close> throws a TypeError before \<^verbatim>\<open>resolve\<close> is called: the result is
  \<open>None\<close>, no listing data comes back for the element.
\<close>

definition split_meta_with :: "js_string \<Rightarrow> js_string \<Rightarrow> (js_string \<times> js_string) option" where
  "split_meta_with sep text =
     (case split sep text of
        posted_time # location # _ \<Rightarrow> Some (js_trim posted_time, js_trim location)
      | _ \<Rightarrow> None)"

definition split_meta :: "js_string \<Rightarrow> (js_string \<times> js_string) option" where
  "split_meta text = split_meta_with META_SEPARATOR text"

text \<open>The meta text \<^verbatim>\<open>3h ago . Brooklyn\<close>, its dot being the middle dot U+00B7.\<close>

definition meta_3h_ago_Brooklyn :: js_string where
  "meta_3h_ago_Brooklyn = js ''3h ago '' @ [0x00B7] @ js '' Brooklyn''"

subsection \<open>Exceptions, records and the environment\<close>

text \<open>
  The exceptions that the modelled paths raise. All of them are instances of
  \<^verbatim>\<open>Exception\<close>, so \<^verbatim>\<open>except Exception\<close> catches each one. \<open>SQLAlchemyError\<close> stands for
  any error a store round trip raises; \<open>ArgumentError\<close> is a subclass of it;
  \<open>DatabaseError\<close> is the class of models.py (line 102), not a subclass of it.
  \<open>OtherException\<close> is any exception of no class named in an \<^verbatim>\<open>except\<close> clause, such as
  the \<^verbatim>\<open>Exception\<close> of line 451 or a failing mail submission.
\<close>

datatype exn =
  NameError | KeyError | IndexError | ValueError | ArgumentError | SQLAlchemyError
  | DatabaseError | PlaywrightTimeoutError | OtherException

definition is_sqlalchemy_error :: "exn \<Rightarrow> bool" where
  "is_sqlalchemy_error e = (e \<in> set [SQLAlchemyError, ArgumentError])"

text \<open>
  A row of the listing table (\<^verbatim>\<open>db_listing_entry\<close>, models.py lines 159-170). The
  surrogate key \<^verbatim>\<open>id\<close> is assigned by the database, cannot be passed to the constructor
  and is read nowhere; it is left out.
\<close>

record listing =
  link :: string
  title :: string
  cl_id :: string
  screenshot_path :: "string option"
  time_posted :: string
  location :: string
  time_scraped :: string
  notified :: bool

text \<open>The dictionary that the in-page callback resolves to for one element.\<close>

record listing_data =
  data_title :: string
  data_link :: string
  data_posted_time :: string
  data_location :: string

text \<open>
  The fields of \<^verbatim>\<open>EmailConfig\<close> and \<^verbatim>\<open>Config\<close> that the modelled functions read.
\<close>

record email_config =
  enabled :: bool
  notification_subject_prefix :: string

record config =
  urls :: "string list"
  email :: email_config
  combine_notifications :: bool

text \<open>
  What one run of the \<^verbatim>\<open>with get_browser() as page\<close> block yields up to the return of
  \<^verbatim>\<open>scrape_listings\<close>: a \<^verbatim>\<open>PlaywrightTimeoutError\<close> (raised by \<^verbatim>\<open>page.goto\<close>), any other
  exception (no response, a status of 400 or more, a browser that does not start), or the
  dictionaries of the elements that were evaluated and turned into rows.
  \<^verbatim>\<open>scrape_listings\<close> itself never raises: it catches every exception and returns the
  list built so far.
\<close>

datatype fetch = LoadTimeout | LoadFailed | Loaded "listing_data list"

text \<open>What a module-level name can be bound to, as far as \<^verbatim>\<open>session.query\<close> cares.\<close>

datatype pyval = ListingModel | OtherObject

text \<open>
  What can go wrong in one round trip to the database. \<open>StatementFault\<close>: the database
  refuses the statement, which aborts the transaction; the session is not told.
  \<open>SessionFault\<close>: the flush of the pending rows fails or the connection is lost; the
  session rolls its transaction back and refuses to be used until \<^verbatim>\<open>rollback()\<close>.
\<close>

datatype fault = NoFault | StatementFault | SessionFault

record environment =
  globals :: "string \<Rightarrow> pyval option"
    \<comment> \<open>the global namespace of module \<^verbatim>\<open>main\<close> when \<^verbatim>\<open>process_listings\<close> runs\<close>
  web :: "nat \<Rightarrow> nat \<Rightarrow> nat \<Rightarrow> fetch"
    \<comment> \<open>cycle, index of the URL, retry: what the page visit yields\<close>
  now :: "nat \<Rightarrow> string"
    \<comment> \<open>the timestamp taken at the start of a cycle\<close>
  store_fault :: "nat \<Rightarrow> fault"
    \<comment> \<open>what goes wrong in the n-th round trip to the database\<close>
  mail_fails :: "string \<Rightarrow> bool"
    \<comment> \<open>whether the mail submission with this subject raises after its own retries\<close>

text \<open>
  The names bound at the top level of main.py: its imports (lines 2-20), \<^verbatim>\<open>logger\<close>, its
  constants (lines 34-66) and its functions. None of them is bound to the listing class:
  \<^verbatim>\<open>get_db\<close> is called in \<^verbatim>\<open>main\<close> only (line 402) and its result is kept in a local
  variable of \<^verbatim>\<open>main\<close>. (The module attributes that Python adds, such as \<^verbatim>\<open>__name__\<close>, and
  the builtins are irrelevant here: the only name looked up is \<^verbatim>\<open>db\<close>.)
\<close>

definition main_module_names :: "string list" where
  "main_module_names =
     [''sync_playwright'', ''PlaywrightTimeoutError'', ''MIMEText'', ''MIMEMultipart'',
      ''smtplib'', ''ssl'', ''html2text'', ''random'', ''time'', ''datetime'', ''argparse'',
      ''json'', ''logging'', ''Path'', ''contextmanager'', ''List'', ''Optional'', ''Dict'',
      ''Any'', ''select'', ''or_'', ''get_engine'', ''Config'', ''get_db'', ''Session'',
      ''init_db'', ''session_scope'', ''DatabaseError'', ''logger'', ''PAGE_LOAD_TIMEOUT'',
      ''MAX_RETRIES'', ''DEFAULT_CONFIG_PATH'', ''MIN_WAIT_TIME'', ''MAX_WAIT_TIME'',
      ''SMTP_MAX_RETRIES'', ''SMTP_TIMEOUT'', ''USER_AGENTS'', ''HTML_EMAIL_TEMPLATE'',
      ''get_random_user_agent'', ''random_sleep'', ''get_browser'',
      ''simulate_human_behavior'', ''handle_dialog'', ''scrape_listings'', ''load_config'',
      ''format_listing_for_email'', ''send_email'', ''send_notification'',
      ''send_error_notification'', ''process_listings'', ''main'']"

definition main_globals :: "string \<Rightarrow> pyval option" where
  "main_globals = map_of (map (\<lambda>n. (n, OtherObject)) main_module_names)"

text \<open>The same namespace with \<^verbatim>\<open>db\<close> bound to the listing class, as a caller could set it.\<close>

definition globals_with_db :: "string \<Rightarrow> pyval option" where
  "globals_with_db = main_globals(''db'' \<mapsto> ListingModel)"

text \<open>
  The \<^verbatim>\<open>logger.error\<close> calls of the modelled paths, by the message they write. (The
  calls of \<^verbatim>\<open>logger.info\<close> are not recorded.)
\<close>

datatype log_message =
  ErrorProcessingListing string exn      \<comment> \<open>main.py line 364, with the title\<close>
  | ErrorInProcessListings exn           \<comment> \<open>line 379\<close>
  | ErrorSendingNotification exn         \<comment> \<open>line 333\<close>
  | FailedToInitializeBrowser exn        \<comment> \<open>line 136\<close>
  | TimeoutOnAttempt nat                 \<comment> \<open>line 468, with the attempt number\<close>
  | DatabaseErrorWhileProcessing exn     \<comment> \<open>line 472\<close>
  | DatabaseErrorInSession exn           \<comment> \<open>models.py line 189\<close>
  | UnexpectedErrorInSession exn         \<comment> \<open>models.py line 193\<close>
  | CriticalDatabaseError exn            \<comment> \<open>main.py line 493\<close>
  | CriticalErrorInMainLoop exn          \<comment> \<open>line 496\<close>

text \<open>
  What the program does to the outside, in order. \<open>RandomSleep lo hi\<close> is
  \<^verbatim>\<open>random_sleep(lo, hi)\<close>, a sleep of a duration drawn between the two bounds (seconds);
  \<open>CycleSleep\<close> is the sleep at the end of a cycle (lines 481-487). \<open>Commit t\<close> is a
  \<^verbatim>\<open>session.commit()\<close> that succeeded and made \<open>t\<close> the table; \<open>Notify b\<close> is a call of
  \<^verbatim>\<open>send_notification\<close> with the non-empty batch \<open>b\<close>; \<open>SendEmail subject body\<close> is the
  call of \<^verbatim>\<open>send_email\<close> by \<^verbatim>\<open>send_notification\<close>.
\<close>

datatype event =
  Attempt string nat
  | RandomSleep nat nat
  | CycleSleep
  | Commit "listing list"
  | Rollback
  | Notify "listing list"
  | SendEmail string string
  | LogError log_message

subsection \<open>Composing and sending a notification (main.py, lines 48-66 and 271-333)\<close>

definition newline :: string where
  "newline = [CHR 0x0A]"

definition lines_of :: "string list \<Rightarrow> string" where
  "lines_of ls = concat (map (\<lambda>l. l @ newline) ls)"

definition HTML_EMAIL_TEMPLATE :: string where
  \<open>HTML_EMAIL_TEMPLATE = newline @ lines_of
     [''<html>'',
      ''    <head>'',
      ''        <style>'',
      ''            body { font-family: Arial, sans-serif; }'',
      ''            .listing { margin-bottom: 20px; padding: 10px; border: 1px solid #ddd; border-radius: 5px; }'',
      ''            a { color: #0066cc; text-decoration: none; }'',
      ''            a:hover { text-decoration: underline; }'',
      ''        </style>'',
      ''    </head>'',
      ''    <body>'',
      ''        <h2>New Free Items Found on Craigslist</h2>'',
      ''        {listings_html}'',
      ''        <p style="color: #666; font-size: 12px;">'',
      ''            This is an automated notification from your Craigslist scraper.'',
      ''        </p>'',
      ''    </body>'',
      ''</html>'']\<close>

text \<open>
  \<^verbatim>\<open>template.format(**kwargs)\<close>, read left to right. Outside a replacement field
  (\<open>None\<close>) a doubled brace is a literal brace, a single \<^verbatim>\<open>{\<close> opens a field and a
  single \<^verbatim>\<open>}\<close> is a ValueError. Inside a field (\<open>Some f\<close>, with \<open>f\<close> the text read so
  far) the closing brace ends it: the field name is the text before the first of
  \<^verbatim>\<open>: ! . [\<close>; an empty or numeric name asks for a positional argument, and none is
  passed (IndexError); any other name is looked up among the keywords (KeyError when it is
  missing). A field that is a bare keyword is replaced by its value. What follows the
  name (a format specification, a conversion, an attribute) has no rule here, since the
  template has no such field with a known name: such a field is answered with ValueError.
\<close>

definition field_name :: "string \<Rightarrow> string" where
  "field_name f = takeWhile (\<lambda>c. c \<notin> set '':!.['') f"

fun format_from :: "(string \<times> string) list \<Rightarrow> string option \<Rightarrow> string \<Rightarrow> exn + string" where
  "format_from kw None [] = Inr []"
| "format_from kw (Some f) [] = Inl ValueError"
| "format_from kw None (c # cs) =
     (if c = CHR ''{'' then
        (case cs of
           [] \<Rightarrow> Inl ValueError
         | d # ds \<Rightarrow>
             if d = CHR ''{'' then map_sum id ((#) c) (format_from kw None ds)
             else format_from kw (Some []) cs)
      else if c = CHR ''}'' then
        (case cs of
           [] \<Rightarrow> Inl ValueError
         | d # ds \<Rightarrow>
             if d = CHR ''}'' then map_sum id ((#) c) (format_from kw None ds)
             else Inl ValueError)
      else map_sum id ((#) c) (format_from kw None cs))"
| "format_from kw (Some f) (c # cs) =
     (if c = CHR ''}'' then
        (if field_name f = [] \<or> list_all (\<lambda>d. d \<in> set ''0123456789'') (field_name f)
         then Inl IndexError
         else case map_of kw (field_name f) of
                None \<Rightarrow> Inl KeyError
              | Some v \<Rightarrow>
                  if field_name f = f then map_sum id ((@) v) (format_from kw None cs)
                  else Inl ValueError)
      else format_from kw (Some (f @ [c])) cs)"

definition py_format :: "string \<Rightarrow> (string \<times> string) list \<Rightarrow> exn + string" where
  "py_format template kw = format_from kw None template"

text \<open>\<^verbatim>\<open>str(n)\<close> for a length.\<close>

function string_of_nat :: "nat \<Rightarrow> string" where
  "string_of_nat n =
     (if n < 10 then [char_of (48 + n)]
      else string_of_nat (n div 10) @ [char_of (48 + n mod 10)])"
  by pat_completeness auto
termination
  by (relation "measure id") auto

text \<open>
  \<^verbatim>\<open>format_listing_for_email\<close>: an f-string over four fields of the row. Its handler
  (lines 281-283) guards attribute errors, which a row cannot raise.
\<close>

definition format_listing_for_email :: "listing \<Rightarrow> string" where
  \<open>format_listing_for_email l =
     newline @ ''        <div class="listing">'' @ newline
     @ ''            <h3><a href="'' @ link l @ ''">'' @ title l @ ''</a></h3>'' @ newline
     @ ''            <p>Location: '' @ location l @ ''</p>'' @ newline
     @ ''            <p>Posted: '' @ time_posted l @ ''</p>'' @ newline
     @ ''        </div>'' @ newline
     @ ''        ''\<close>

text \<open>
  \<^verbatim>\<open>send_email\<close> as \<^verbatim>\<open>send_notification\<close> sees it: nothing when mail is disabled (line
  287), else the submission, which either succeeds or, after its own retries, raises; the
  handler of lines 317-319 re-raises. The result is the exception that escapes, if any.
  (The error this logs itself is not recorded.)
\<close>

definition send_email :: "environment \<Rightarrow> string \<Rightarrow> string \<Rightarrow> config \<Rightarrow> exn option \<times> event list" where
  "send_email E subject html_content cfg =
     (if \<not> enabled (email cfg) then (None, [])
      else if mail_fails E subject then (Some OtherException, [SendEmail subject html_content])
      else (None, [SendEmail subject html_content]))"

text \<open>
  \<^verbatim>\<open>send_notification\<close>: nothing for an empty list (lines 323-324); else the template is
  formatted with the joined sections of the rows, the subject is built and
  \<^verbatim>\<open>send_email\<close> is called, all inside \<^verbatim>\<open>try ... except Exception\<close>, whose handler logs and
  returns. So no exception leaves this function, and it returns its events only. The
  template is a parameter of the body, which \<open>send_notification\<close> sets to the constant
  of lines 48-66.
\<close>

definition send_notification_with ::
  "string \<Rightarrow> environment \<Rightarrow> listing list \<Rightarrow> config \<Rightarrow> event list" where
  "send_notification_with template E listings cfg =
     (if listings = [] then []
      else Notify listings #
        (case py_format template
                [(''listings_html'', concat (map format_listing_for_email listings))] of
           Inl e \<Rightarrow> [LogError (ErrorSendingNotification e)]
         | Inr html_content \<Rightarrow>
             (case send_email E
                     (notification_subject_prefix (email cfg) @ '' ''
                        @ string_of_nat (length listings) @ '' New Items Found'')
                     html_content cfg of
                (None, evs) \<Rightarrow> evs
              | (Some e, evs) \<Rightarrow> evs @ [LogError (ErrorSendingNotification e)])))"

definition send_notification :: "environment \<Rightarrow> listing list \<Rightarrow> config \<Rightarrow> event list" where
  "send_notification E listings cfg = send_notification_with HTML_EMAIL_TEMPLATE E listings cfg"

subsection \<open>The session (models.py, lines 181-197)\<close>

text \<open>
  The store as the program sees it: \<open>committed\<close> is the listing table in the database,
  \<open>rows\<close> is the table as the open transaction of the session sees it (rows added with
  \<^verbatim>\<open>session.add\<close> and flags set on loaded rows included: the session flushes them before
  each query, and nothing else reads them), \<open>ops\<close> counts the round trips to the
  database made so far, and \<open>status\<close> says what became of the transaction:
  \<open>Aborted\<close> after a statement that the database refused (every further statement of
  the transaction is refused, and a commit ends it without storing anything and without
  raising), \<open>Inactive\<close> after a failed flush or a lost connection (the session has
  rolled back and raises on every use, the commit included, until \<^verbatim>\<open>rollback()\<close>). A
  rollback is taken to succeed.
\<close>

datatype session_status = Active | Aborted | Inactive

record session =
  committed :: "listing list"
  rows :: "listing list"
  ops :: nat
  status :: session_status

text \<open>
  \<^verbatim>\<open>session.query(db).filter_by(cl_id=k).first()\<close>. The argument \<^verbatim>\<open>db\<close> is evaluated
  first: a free name of \<^verbatim>\<open>process_listings\<close>, looked up in the module namespace when the
  statement runs, NameError when it is not bound. An object that is no mapped class is
  refused by \<^verbatim>\<open>query\<close>. Neither makes a round trip, and neither does an inactive
  session. On an aborted transaction the round trip is made and refused. Otherwise the
  environment decides: the row is looked up in the view of the transaction, or the
  statement is refused and the transaction aborted, or the session rolls back, which
  drops the rows it had added.
\<close>

definition query_first :: "environment \<Rightarrow> string \<Rightarrow> session \<Rightarrow> (exn + listing option) \<times> session" where
  "query_first E k s =
     (case globals E ''db'' of
        None \<Rightarrow> (Inl NameError, s)
      | Some OtherObject \<Rightarrow> (Inl ArgumentError, s)
      | Some ListingModel \<Rightarrow>
          (case status s of
             Inactive \<Rightarrow> (Inl SQLAlchemyError, s)
           | Aborted \<Rightarrow> (Inl SQLAlchemyError, s\<lparr>ops := Suc (ops s)\<rparr>)
           | Active \<Rightarrow>
               (case store_fault E (ops s) of
                  NoFault \<Rightarrow>
                    (Inr (find (\<lambda>r. cl_id r = k) (rows s)), s\<lparr>ops := Suc (ops s)\<rparr>)
                | StatementFault \<Rightarrow>
                    (Inl SQLAlchemyError, s\<lparr>ops := Suc (ops s), status := Aborted\<rparr>)
                | SessionFault \<Rightarrow>
                    (Inl SQLAlchemyError,
                     s\<lparr>rows := committed s, ops := Suc (ops s), status := Inactive\<rparr>))))"

definition session_add :: "listing \<Rightarrow> session \<Rightarrow> session" where
  "session_add l s = s\<lparr>rows := rows s @ [l]\<rparr>"

text \<open>\<^verbatim>\<open>existing.notified = True\<close>, on the row that the query returned: the first with that key.\<close>

fun mark_notified :: "string \<Rightarrow> listing list \<Rightarrow> listing list" where
  "mark_notified k [] = []"
| "mark_notified k (r # rs) =
     (if cl_id r = k then r\<lparr>notified := True\<rparr> # rs else r # mark_notified k rs)"

text \<open>
  \<^verbatim>\<open>session.commit()\<close>. An inactive session raises. On an aborted transaction the
  commit returns normally and the database has rolled back: nothing is stored. (Nothing
  is pending then: the lookup that was refused had flushed the session first, and no
  row is added after a lookup that raised.) Otherwise the pending rows are flushed and
  the transaction committed, which stores the view, unless the environment makes either
  step fail: then the commit raises and nothing is stored.
\<close>

definition session_commit :: "environment \<Rightarrow> session \<Rightarrow> (exn + unit) \<times> session" where
  "session_commit E s =
     (case status s of
        Inactive \<Rightarrow> (Inl SQLAlchemyError, s)
      | Aborted \<Rightarrow>
          (Inr (), s\<lparr>rows := committed s, ops := Suc (ops s), status := Active\<rparr>)
      | Active \<Rightarrow>
          (case store_fault E (ops s) of
             NoFault \<Rightarrow> (Inr (), s\<lparr>committed := rows s, ops := Suc (ops s)\<rparr>)
           | StatementFault \<Rightarrow>
               (Inl SQLAlchemyError,
                s\<lparr>rows := committed s, ops := Suc (ops s), status := Inactive\<rparr>)
           | SessionFault \<Rightarrow>
               (Inl SQLAlchemyError,
                s\<lparr>rows := committed s, ops := Suc (ops s), status := Inactive\<rparr>)))"

definition session_rollback :: "session \<Rightarrow> session" where
  "session_rollback s = s\<lparr>rows := committed s, status := Active\<rparr>"

text \<open>\<^verbatim>\<open>sessionmaker(bind=engine)()\<close>: a new session, on the table in the database.\<close>

definition new_session :: "session \<Rightarrow> session" where
  "new_session s = s\<lparr>rows := committed s, status := Active\<rparr>"

subsection \<open>The dedup and notification policy (main.py, lines 349-381)\<close>

text \<open>
  The body of the loop of lines 353-365 for one record, with the session and
  \<^verbatim>\<open>new_listings\<close> as its state and the events it adds. Every exception of the body is
  caught by the handler of lines 363-365, which logs and goes on to the next record.
  \<^verbatim>\<open>new_listings\<close> holds the objects themselves. An entry that has the identity of
  the row found is that very row (a record added earlier in the same call, which the
  session returns for the query), so the flag that line 362 sets shows on it as well.
\<close>

definition set_flag :: "string \<Rightarrow> listing \<Rightarrow> listing" where
  "set_flag k x = (if cl_id x = k then x\<lparr>notified := True\<rparr> else x)"

definition process_record ::
  "environment \<Rightarrow> listing \<Rightarrow> session \<times> listing list \<times> event list
     \<Rightarrow> session \<times> listing list \<times> event list" where
  "process_record E l acc =
     (case acc of (s, new_listings, evs) \<Rightarrow>
        (case query_first E (cl_id l) s of
           (Inl e, s') \<Rightarrow>
             (s', new_listings, evs @ [LogError (ErrorProcessingListing (title l) e)])
         | (Inr None, s') \<Rightarrow>
             (session_add l s', new_listings @ [l], evs)
         | (Inr (Some existing), s') \<Rightarrow>
             if \<not> notified existing
             then (s'\<lparr>rows := mark_notified (cl_id l) (rows s')\<rparr>,
                   map (set_flag (cl_id l)) new_listings @ [existing\<lparr>notified := True\<rparr>],
                   evs)
             else (s', new_listings, evs)))"

text \<open>\<^verbatim>\<open>for listing in listings\<close>, line 353.\<close>

fun process_loop ::
  "environment \<Rightarrow> listing list \<Rightarrow> session \<times> listing list \<times> event list
     \<Rightarrow> session \<times> listing list \<times> event list" where
  "process_loop E [] acc = acc"
| "process_loop E (l # ls) acc = process_loop E ls (process_record E l acc)"

text \<open>
  Lines 369-376. \<^verbatim>\<open>send_notification\<close> lets no exception out, so the handler of lines
  375-376 is never entered and the loop of line 373 visits every record.
\<close>

definition send_notifications :: "environment \<Rightarrow> config \<Rightarrow> listing list \<Rightarrow> event list" where
  "send_notifications E cfg new_listings =
     (if combine_notifications cfg then send_notification E new_listings cfg
      else concat (map (\<lambda>listing. send_notification E [listing] cfg) new_listings))"

text \<open>
  \<^verbatim>\<open>process_listings\<close>: the loop, then, when \<^verbatim>\<open>new_listings\<close> is not empty, the commit
  followed by the notifications. The only statement outside the inner handlers that can
  raise is the commit; the outer handler (lines 378-381) logs, rolls back and re-raises.
\<close>

definition process_listings ::
  "environment \<Rightarrow> listing list \<Rightarrow> session \<Rightarrow> config \<Rightarrow> (exn + unit) \<times> session \<times> event list" where
  "process_listings E listings s cfg =
     (case process_loop E listings (s, [], []) of
        (s1, new_listings, evs) \<Rightarrow>
          if new_listings = [] then (Inr (), s1, evs)
          else
            (case session_commit E s1 of
               (Inl e, s2) \<Rightarrow>
                 (Inl e, session_rollback s2, evs @ [LogError (ErrorInProcessListings e), Rollback])
             | (Inr u, s2) \<Rightarrow>
                 (Inr (), s2, evs @ [Commit (committed s2)] @ send_notifications E cfg new_listings)))"

text \<open>
  \<^verbatim>\<open>with session_scope(engine) as session: body\<close>, on a new session. When the body returns, the session commits; an SQLAlchemy error, of
  the body or of that commit, is logged, rolled back and replaced by \<open>DatabaseError\<close>;
  any other exception of the body is logged, rolled back and re-raised.
\<close>

definition session_scope ::
  "environment \<Rightarrow> (session \<Rightarrow> (exn + unit) \<times> session \<times> event list) \<Rightarrow> session
     \<Rightarrow> (exn + unit) \<times> session \<times> event list" where
  "session_scope E body s0 =
     (case body (new_session s0) of
        (Inl e, s1, evs) \<Rightarrow>
          if is_sqlalchemy_error e
          then (Inl DatabaseError, session_rollback s1, evs @ [LogError (DatabaseErrorInSession e), Rollback])
          else (Inl e, session_rollback s1, evs @ [LogError (UnexpectedErrorInSession e), Rollback])
      | (Inr u, s1, evs) \<Rightarrow>
          (case session_commit E s1 of
             (Inl e, s2) \<Rightarrow>
               (Inl DatabaseError, session_rollback s2,
                evs @ [LogError (DatabaseErrorInSession e), Rollback])
           | (Inr u', s2) \<Rightarrow> (Inr (), s2, evs @ [Commit (committed s2)])))"

subsection \<open>Extraction results as rows (main.py, lines 224-232)\<close>

text \<open>\<^verbatim>\<open>s.removesuffix(suffix)\<close>.\<close>

definition removesuffix :: "string \<Rightarrow> string \<Rightarrow> string" where
  "removesuffix suffix s =
     (if suffix \<noteq> [] \<and> starts_with (rev suffix) (rev s)
      then take (length s - length suffix) s else s)"

text \<open>
  The call \<^verbatim>\<open>db(link=..., title=..., cl_id=..., ...)\<close>; here \<^verbatim>\<open>db\<close> is the parameter of
  \<^verbatim>\<open>scrape_listings\<close>, to which \<^verbatim>\<open>main\<close> passes the listing class. The flag takes its
  default, \<^verbatim>\<open>False\<close> (models.py line 170). \<^verbatim>\<open>split\<close> returns at least one piece, so
  \<^verbatim>\<open>[-1]\<close> is its last.
\<close>

definition make_listing :: "string \<Rightarrow> listing_data \<Rightarrow> listing" where
  "make_listing timestamp d =
     \<lparr>link = data_link d,
      title = data_title d,
      cl_id = removesuffix ''.html'' (last (split ''/'' (data_link d))),
      screenshot_path = Some [],
      time_posted = data_posted_time d,
      location = data_location d,
      time_scraped = timestamp,
      notified = False\<rparr>"

subsection \<open>The cycle scheduler (main.py, lines 423-497)\<close>

definition MAX_RETRIES :: nat where
  "MAX_RETRIES = 3"

record state =
  store :: session
  initial_run :: bool

text \<open>
  One run of the block of lines 433-463 for the URL at index \<open>i\<close>, in cycle \<open>c\<close>, at
  retry \<open>retry\<close>. An exception that leaves the block passes through the handler of
  \<^verbatim>\<open>get_browser\<close> (lines 135-137), which logs and re-raises it.
\<close>

definition attempt ::
  "environment \<Rightarrow> config \<Rightarrow> nat \<Rightarrow> nat \<Rightarrow> string \<Rightarrow> nat \<Rightarrow> state \<Rightarrow> (exn + unit) \<times> state \<times> event list" where
  "attempt E cfg c i url retry st =
     (case web E c i retry of
        LoadTimeout \<Rightarrow>
          (Inl PlaywrightTimeoutError, st,
           [Attempt url retry, LogError (FailedToInitializeBrowser PlaywrightTimeoutError)])
      | LoadFailed \<Rightarrow>
          (Inl OtherException, st,
           [Attempt url retry, LogError (FailedToInitializeBrowser OtherException)])
      | Loaded ds \<Rightarrow>
          (case (if initial_run st then (Inr (), store st, [])
                 else session_scope E
                        (\<lambda>s. process_listings E (map (make_listing (now E c)) ds) s cfg)
                        (store st)) of
             (Inl e, s', evs) \<Rightarrow>
               (Inl e, st\<lparr>store := s'\<rparr>,
                Attempt url retry # evs @ [LogError (FailedToInitializeBrowser e)])
           | (Inr u, s', evs) \<Rightarrow>
               (Inr (), st\<lparr>store := s'\<rparr>,
                Attempt url retry # evs
                  @ (if int i < int (length (urls cfg)) - 1 then [RandomSleep 2 5] else []))))"

text \<open>
  \<^verbatim>\<open>for retry in range(MAX_RETRIES)\<close>, lines 431-476: a successful attempt breaks; a
  timeout or a \<open>DatabaseError\<close> is re-raised on the last attempt and otherwise followed by
  a sleep and the next attempt; any other exception has no handler here.
\<close>

fun retry_loop ::
  "environment \<Rightarrow> config \<Rightarrow> nat \<Rightarrow> nat \<Rightarrow> string \<Rightarrow> nat list \<Rightarrow> state \<Rightarrow> (exn + unit) \<times> state \<times> event list" where
  "retry_loop E cfg c i url [] st = (Inr (), st, [])"
| "retry_loop E cfg c i url (retry # rest) st =
     (case attempt E cfg c i url retry st of
        (Inr u, st', evs) \<Rightarrow> (Inr (), st', evs)
      | (Inl e, st', evs) \<Rightarrow>
          if e = PlaywrightTimeoutError then
            (if int retry = int MAX_RETRIES - 1 then (Inl e, st', evs)
             else (case retry_loop E cfg c i url rest st' of
                     (r, st'', evs') \<Rightarrow>
                       (r, st'',
                        evs @ [LogError (TimeoutOnAttempt (retry + 1)),
                               RandomSleep (5 * (retry + 1)) (10 * (retry + 1))] @ evs')))
          else if e = DatabaseError then
            (if int retry = int MAX_RETRIES - 1
             then (Inl e, st', evs @ [LogError (DatabaseErrorWhileProcessing e)])
             else (case retry_loop E cfg c i url rest st' of
                     (r, st'', evs') \<Rightarrow>
                       (r, st'',
                        evs @ [LogError (DatabaseErrorWhileProcessing e),
                               RandomSleep (5 * (retry + 1)) (10 * (retry + 1))] @ evs')))
          else (Inl e, st', evs))"

text \<open>
  \<^verbatim>\<open>for i, url in enumerate(config.urls)\<close>, line 430. No handler stands between the
  retry loop and the handlers of the cycle: an exception that leaves the retry loop
  leaves this loop as well.
\<close>

fun visit_urls ::
  "environment \<Rightarrow> config \<Rightarrow> nat \<Rightarrow> (nat \<times> string) list \<Rightarrow> state \<Rightarrow> (exn + unit) \<times> state \<times> event list" where
  "visit_urls E cfg c [] st = (Inr (), st, [])"
| "visit_urls E cfg c ((i, url) # rest) st =
     (case retry_loop E cfg c i url [0..<MAX_RETRIES] st of
        (Inl e, st', evs) \<Rightarrow> (Inl e, st', evs)
      | (Inr u, st', evs) \<Rightarrow>
          (case visit_urls E cfg c rest st' of
             (r, st'', evs') \<Rightarrow> (r, st'', evs @ evs')))"

text \<open>
  One pass through the body of \<^verbatim>\<open>while True\<close> (lines 427-497), cycle number \<open>c\<close>. Only
  a pass without exception reaches line 478 and the sleep of the cycle; the handlers of
  lines 492-497 log and sleep 30 to 60 seconds.
\<close>

definition run_cycle :: "environment \<Rightarrow> config \<Rightarrow> nat \<Rightarrow> state \<Rightarrow> state \<times> event list" where
  "run_cycle E cfg c st =
     (case visit_urls E cfg c (enumerate 0 (urls cfg)) st of
        (Inr u, st', evs) \<Rightarrow> (st'\<lparr>initial_run := False\<rparr>, evs @ [CycleSleep])
      | (Inl e, st', evs) \<Rightarrow>
          if e = DatabaseError
          then (st', evs @ [LogError (CriticalDatabaseError e), RandomSleep 30 60])
          else (st', evs @ [LogError (CriticalErrorInMainLoop e), RandomSleep 30 60]))"

text \<open>
  The loop never ends by itself; only a KeyboardInterrupt (lines 489-491) ends it.
  \<open>run_cycles E cfg c n st\<close> is \<open>n\<close> passes of it from cycle number \<open>c\<close> on, and \<open>main_loop\<close> starts it as \<^verbatim>\<open>main\<close> does (lines 423-424) on the
  table that the database holds at that moment.
\<close>

fun run_cycles :: "environment \<Rightarrow> config \<Rightarrow> nat \<Rightarrow> nat \<Rightarrow> state \<Rightarrow> state \<times> event list" where
  "run_cycles E cfg c 0 st = (st, [])"
| "run_cycles E cfg c (Suc n) st =
     (case run_cycle E cfg c st of
        (st', evs) \<Rightarrow>
          (case run_cycles E cfg (Suc c) n st' of
             (st'', evs') \<Rightarrow> (st'', evs @ evs')))"

definition main_loop :: "environment \<Rightarrow> config \<Rightarrow> listing list \<Rightarrow> nat \<Rightarrow> state \<times> event list" where
  "main_loop E cfg table n =
     run_cycles E cfg 0 n
       \<lparr>store = \<lparr>committed = table, rows = table, ops = 0, status = Active\<rparr>,
        initial_run = True\<rparr>"

subsection \<open>Reading the events and the table\<close>

text \<open>The batches passed to \<^verbatim>\<open>send_notification\<close>, in order.\<close>

fun batches :: "event list \<Rightarrow> listing list list" where
  "batches [] = []"
| "batches (Notify b # evs) = b # batches evs"
| "batches (ev # evs) = batches evs"

text \<open>The identities of the records of all batches, and the batches that hold a given one.\<close>

definition notified_ids :: "event list \<Rightarrow> string list" where
  "notified_ids evs = map cl_id (concat (batches evs))"


text \<open>The calls of \<^verbatim>\<open>send_email\<close>, by subject and body, in order.\<close>

fun emails :: "event list \<Rightarrow> (string \<times> string) list" where
  "emails [] = []"
| "emails (SendEmail subject body # evs) = (subject, body) # emails evs"
| "emails (ev # evs) = emails evs"

text \<open>The attempts made for a URL, by their retry numbers, and the sleeps, in order.\<close>

fun attempts_of :: "string \<Rightarrow> event list \<Rightarrow> nat list" where
  "attempts_of url [] = []"
| "attempts_of url (Attempt u retry # evs) =
     (if u = url then retry # attempts_of url evs else attempts_of url evs)"
| "attempts_of url (ev # evs) = attempts_of url evs"

text \<open>
  Whether the table holds the identity \<open>k\<close> with the flag set. The column \<^verbatim>\<open>cl_id\<close> is
  unique (models.py line 165); the row looked at is the one a query returns.
\<close>

definition is_notified :: "string \<Rightarrow> listing list \<Rightarrow> bool" where
  "is_notified k t = (case find (\<lambda>r. cl_id r = k) t of None \<Rightarrow> False | Some r \<Rightarrow> notified r)"


subsection \<open>Sample inputs\<close>

definition sample_data :: "string \<Rightarrow> string \<Rightarrow> listing_data" where
  "sample_data name number =
     \<lparr>data_title = name,
      data_link = ''https://example.org/abc/d/'' @ name @ ''/'' @ number @ ''.html'',
      data_posted_time = ''3h ago'',
      data_location = ''Brooklyn''\<rparr>"

definition sample_listing :: "string \<Rightarrow> string \<Rightarrow> listing" where
  "sample_listing name number = make_listing ''2024-05-01 10:00:00'' (sample_data name number)"



definition sample_config :: "string list \<Rightarrow> bool \<Rightarrow> config" where
  "sample_config us combine =
     \<lparr>urls = us,
      email = \<lparr>enabled = True, notification_subject_prefix = ''[CL]''\<rparr>,
      combine_notifications = combine\<rparr>"

text \<open>
  The program as it runs, against a given web and a store that may fail: the namespace
  is the one of main.py.
\<close>

definition program_env :: "(nat \<Rightarrow> nat \<Rightarrow> nat \<Rightarrow> fetch) \<Rightarrow> (nat \<Rightarrow> fault) \<Rightarrow> environment" where
  "program_env w f =
     \<lparr>globals = main_globals, web = w, now = (\<lambda>c. ''2024-05-01 10:00:00''),
      store_fault = f, mail_fails = (\<lambda>subject. False)\<rparr>"

text \<open>
  The same with \<^verbatim>\<open>db\<close> bound to the listing class in the namespace of the module, as
  a caller of \<^verbatim>\<open>process_listings\<close> could have set it.
\<close>

definition caller_env :: "(nat \<Rightarrow> nat \<Rightarrow> nat \<Rightarrow> fetch) \<Rightarrow> (nat \<Rightarrow> fault) \<Rightarrow> environment" where
  "caller_env w f = (program_env w f)\<lparr>globals := globals_with_db\<rparr>"

definition never :: "nat \<Rightarrow> fault" where
  "never n = NoFault"

definition fault_at :: "nat \<Rightarrow> fault \<Rightarrow> nat \<Rightarrow> fault" where
  "fault_at m f n = (if n = m then f else NoFault)"

definition session_on :: "listing list \<Rightarrow> session" where
  "session_on t = \<lparr>committed = t, rows = t, ops = 0, status = Active\<rparr>"

section \<open>Properties\<close>

subsection \<open>The namespace and the template\<close>

lemma main_globals_db: "main_globals ''db'' = None"
  by (simp add: main_globals_def main_module_names_def)

lemma globals_with_db_db: "globals_with_db ''db'' = Some ListingModel"
  by (simp add: globals_with_db_def)

text \<open>
  The style block of the template has single braces, so \<^verbatim>\<open>format\<close> takes
  \<^verbatim>\<open>{ font-family: Arial, sans-serif; }\<close> for a replacement field and looks up a keyword
  that was not passed: formatting raises KeyError whatever the sections are.
\<close>

lemma template_format_fails:
  "py_format HTML_EMAIL_TEMPLATE [(''listings_html'', h)] = Inl KeyError"
  by (simp add: py_format_def HTML_EMAIL_TEMPLATE_def lines_of_def newline_def field_name_def)

lemma send_notification_events:
  "send_notification E ls cfg =
     (if ls = [] then [] else [Notify ls, LogError (ErrorSendingNotification KeyError)])"
  by (simp add: send_notification_def send_notification_with_def template_format_fails)

lemma batches_append: "batches (xs @ ys) = batches xs @ batches ys"
  by (induction xs rule: batches.induct) simp_all

lemma batches_notify_each:
  "batches (concat (map (\<lambda>l. send_notification E [l] cfg) ls)) = map (\<lambda>l. [l]) ls"
  by (induction ls) (simp_all add: send_notification_events batches_append)

lemma send_notifications_batches:
  "batches (send_notifications E cfg new_listings) =
     (if new_listings = [] then []
      else if combine_notifications cfg then [new_listings]
      else map (\<lambda>l. [l]) new_listings)"
proof (cases "combine_notifications cfg")
  case True
  then show ?thesis
    by (simp add: send_notifications_def send_notification_events)
next
  case False
  then show ?thesis
    by (simp add: send_notifications_def batches_notify_each)
qed

lemma title_sample: "title (sample_listing name number) = name"
  by (simp add: sample_listing_def make_listing_def sample_data_def)

subsection \<open>Batch grouping\<close>

text \<open>
  With a template whose only braces are those of the field, the same function composes
  the message and calls \<^verbatim>\<open>send_email\<close> once, with the count of the records in the
  subject and their sections in the body.
\<close>

lemma string_of_nat_3: "string_of_nat (Suc (Suc (Suc 0))) = ''3''"
proof -
  have "string_of_nat 3 = ''3''" by code_simp
  then show ?thesis by (simp add: numeral_3_eq_3)
qed

lemma send_notification_with_plain_template:
  "send_notification_with ''<body>{listings_html}</body>'' (program_env (\<lambda>c i r. LoadFailed) never)
      [sample_listing ''widget'' ''7001234567'', sample_listing ''sofa'' ''7001234568'',
       sample_listing ''lamp'' ''7001234569''] (sample_config [] True)
   = [Notify [sample_listing ''widget'' ''7001234567'', sample_listing ''sofa'' ''7001234568'',
         sample_listing ''lamp'' ''7001234569''],
      SendEmail ''[CL] 3 New Items Found''
        (''<body>'' @ format_listing_for_email (sample_listing ''widget'' ''7001234567'')
           @ format_listing_for_email (sample_listing ''sofa'' ''7001234568'')
           @ format_listing_for_email (sample_listing ''lamp'' ''7001234569'') @ ''</body>'')]"
  using string_of_nat_3
  by (simp add: send_notification_with_def py_format_def field_name_def send_email_def
      program_env_def sample_config_def del: string_of_nat.simps)

text \<open>
  The section of one record, and what becomes of the call when mail is disabled or
  the submission fails.
\<close>

lemma format_listing_for_email_widget:
  \<open>format_listing_for_email (sample_listing ''widget'' ''7001234567'') =
     newline @ ''        <div class="listing">'' @ newline
     @ ''            <h3><a href="https://example.org/abc/d/widget/7001234567.html">widget</a></h3>''
     @ newline
     @ ''            <p>Location: Brooklyn</p>'' @ newline
     @ ''            <p>Posted: 3h ago</p>'' @ newline
     @ ''        </div>'' @ newline
     @ ''        ''\<close>
  by (simp add: format_listing_for_email_def sample_listing_def make_listing_def sample_data_def
      split_def removesuffix_def)

lemma send_notification_with_mail_disabled:
  "send_notification_with ''<body>{listings_html}</body>'' (program_env (\<lambda>c i r. LoadFailed) never)
      [sample_listing ''widget'' ''7001234567'']
      ((sample_config [] True)\<lparr>email := \<lparr>enabled = False, notification_subject_prefix = ''[CL]''\<rparr>\<rparr>)
   = [Notify [sample_listing ''widget'' ''7001234567'']]"
  by (simp add: send_notification_with_def py_format_def field_name_def send_email_def
      program_env_def sample_config_def del: string_of_nat.simps)

lemma send_notification_with_mail_failing:
  "send_notification_with ''<body>{listings_html}</body>''
      ((program_env (\<lambda>c i r. LoadFailed) never)\<lparr>mail_fails := \<lambda>subject. True\<rparr>)
      [sample_listing ''widget'' ''7001234567''] (sample_config [] True)
   = [Notify [sample_listing ''widget'' ''7001234567''],
      SendEmail (''[CL] '' @ string_of_nat 1 @ '' New Items Found'')
        (''<body>'' @ format_listing_for_email (sample_listing ''widget'' ''7001234567'')
           @ ''</body>''),
      LogError (ErrorSendingNotification OtherException)]"
  by (simp add: send_notification_with_def py_format_def field_name_def send_email_def
      program_env_def sample_config_def del: string_of_nat.simps)

text \<open>
  C6. The claim: with three records in the notify set, one dispatch call carries all
  three when notifications are combined, and three dispatch calls carry one record each
  when they are not. The policy does call \<^verbatim>\<open>send_notification\<close> once with the three
  records, or three times with one each, but every such call fails to format the
  template and logs a KeyError: \<^verbatim>\<open>send_email\<close>, the dispatcher, is not called at all.
\<close>

theorem C6_no_dispatch_call:
  "send_notifications (program_env (\<lambda>c i r. LoadFailed) never) (sample_config [] True)
      [sample_listing ''widget'' ''7001234567'', sample_listing ''sofa'' ''7001234568'',
       sample_listing ''lamp'' ''7001234569'']
     = [Notify [sample_listing ''widget'' ''7001234567'', sample_listing ''sofa'' ''7001234568'',
          sample_listing ''lamp'' ''7001234569''],
        LogError (ErrorSendingNotification KeyError)] \<and>
   send_notifications (program_env (\<lambda>c i r. LoadFailed) never) (sample_config [] False)
      [sample_listing ''widget'' ''7001234567'', sample_listing ''sofa'' ''7001234568'',
       sample_listing ''lamp'' ''7001234569'']
     = [Notify [sample_listing ''widget'' ''7001234567''],
        LogError (ErrorSendingNotification KeyError),
        Notify [sample_listing ''sofa'' ''7001234568''],
        LogError (ErrorSendingNotification KeyError),
        Notify [sample_listing ''lamp'' ''7001234569''],
        LogError (ErrorSendingNotification KeyError)] \<and>
   emails (send_notifications (program_env (\<lambda>c i r. LoadFailed) never) (sample_config [] True)
      [sample_listing ''widget'' ''7001234567'', sample_listing ''sofa'' ''7001234568'',
       sample_listing ''lamp'' ''7001234569'']) = [] \<and>
   emails (send_notifications (program_env (\<lambda>c i r. LoadFailed) never) (sample_config [] False)
      [sample_listing ''widget'' ''7001234567'', sample_listing ''sofa'' ''7001234568'',
       sample_listing ''lamp'' ''7001234569'']) = []"
  by (simp add: send_notifications_def send_notification_events sample_config_def)

subsection \<open>The policy under the namespace of main.py\<close>

lemma query_first_unbound:
  "globals E ''db'' = None \<Longrightarrow> query_first E k s = (Inl NameError, s)"
  by (simp add: query_first_def)

lemma process_loop_unbound:
  "globals E ''db'' = None \<Longrightarrow>
   process_loop E ls (s, new, evs) =
     (s, new, evs @ map (\<lambda>l. LogError (ErrorProcessingListing (title l) NameError)) ls)"
  by (induction ls arbitrary: evs) (simp_all add: process_record_def query_first_unbound)

lemma process_listings_unbound:
  "globals E ''db'' = None \<Longrightarrow>
   process_listings E listings s cfg =
     (Inr (), s, map (\<lambda>l. LogError (ErrorProcessingListing (title l) NameError)) listings)"
  by (simp add: process_listings_def process_loop_unbound)

text \<open>
  C1. Under the namespace of main.py, \<^verbatim>\<open>process_listings\<close> returns normally for every
  list of records, leaves the session as it found it (no row added, no flag set, no
  round trip made) and does nothing but log, for each record, the NameError that the
  per-record handler caught: no commit and no call of \<^verbatim>\<open>send_notification\<close>.
\<close>

theorem C1_process_listings_does_nothing:
  "globals E = main_globals \<Longrightarrow>
   process_listings E listings s cfg =
     (Inr (), s, map (\<lambda>l. LogError (ErrorProcessingListing (title l) NameError)) listings)"
  by (simp add: process_listings_unbound main_globals_db)

theorem C1_process_listings_does_nothing_witness:
  "process_listings (program_env (\<lambda>c i r. LoadFailed) never)
      [sample_listing ''widget'' ''7001234567'', sample_listing ''sofa'' ''7001234568'']
      (session_on [sample_listing ''sofa'' ''7001234568'']) (sample_config [] True)
     = (Inr (), session_on [sample_listing ''sofa'' ''7001234568''],
        [LogError (ErrorProcessingListing ''widget'' NameError),
         LogError (ErrorProcessingListing ''sofa'' NameError)])"
  using C1_process_listings_does_nothing [of "program_env (\<lambda>c i r. LoadFailed) never"
      "[sample_listing ''widget'' ''7001234567'', sample_listing ''sofa'' ''7001234568'']"
      "session_on [sample_listing ''sofa'' ''7001234568'']" "sample_config [] True"]
  by (simp add: program_env_def title_sample)

subsection \<open>Retry and backoff\<close>

lemma range_MAX_RETRIES: "[0..<MAX_RETRIES] = [0, 1, 2]"
  by (simp add: MAX_RETRIES_def upt_rec)

lemma attempt_timeout:
  "web E c i retry = LoadTimeout \<Longrightarrow>
   attempt E cfg c i url retry st =
     (Inl PlaywrightTimeoutError, st,
      [Attempt url retry, LogError (FailedToInitializeBrowser PlaywrightTimeoutError)])"
  by (simp add: attempt_def)

text \<open>
  C4. When every visit of the URL times out, the retry loop makes exactly three attempts
  (retries 0, 1 and 2), sleeps between the first and the second for a duration drawn
  between 1 * 5 and 1 * 10 seconds and between the second and the third for one between
  2 * 5 and 2 * 10 seconds, the factor being the number of the attempt that failed, and
  then lets the timeout of the third attempt escape to its caller.
\<close>

theorem C4_retry_bound:
  "(\<And>retry. web E c i retry = LoadTimeout) \<Longrightarrow>
   retry_loop E cfg c i url [0..<MAX_RETRIES] st =
     (Inl PlaywrightTimeoutError, st,
      [Attempt url 0, LogError (FailedToInitializeBrowser PlaywrightTimeoutError),
       LogError (TimeoutOnAttempt 1), RandomSleep (1 * 5) (1 * 10),
       Attempt url 1, LogError (FailedToInitializeBrowser PlaywrightTimeoutError),
       LogError (TimeoutOnAttempt 2), RandomSleep (2 * 5) (2 * 10),
       Attempt url 2, LogError (FailedToInitializeBrowser PlaywrightTimeoutError)])"
  by (simp only: range_MAX_RETRIES) (simp add: attempt_timeout MAX_RETRIES_def)

theorem C4_retry_bound_witness:
  "retry_loop (program_env (\<lambda>c i r. LoadTimeout) never) (sample_config [''https://example.org/search''] True)
      0 0 ''https://example.org/search'' [0..<MAX_RETRIES]
      \<lparr>store = session_on [], initial_run = False\<rparr>
     = (Inl PlaywrightTimeoutError, \<lparr>store = session_on [], initial_run = False\<rparr>,
        [Attempt ''https://example.org/search'' 0,
         LogError (FailedToInitializeBrowser PlaywrightTimeoutError),
         LogError (TimeoutOnAttempt 1), RandomSleep 5 10,
         Attempt ''https://example.org/search'' 1,
         LogError (FailedToInitializeBrowser PlaywrightTimeoutError),
         LogError (TimeoutOnAttempt 2), RandomSleep 10 20,
         Attempt ''https://example.org/search'' 2,
         LogError (FailedToInitializeBrowser PlaywrightTimeoutError)])"
  using C4_retry_bound [of "program_env (\<lambda>c i r. LoadTimeout) never" 0 0
      "sample_config [''https://example.org/search''] True" "''https://example.org/search''"
      "\<lparr>store = session_on [], initial_run = False\<rparr>"]
  by (simp add: program_env_def)

subsection \<open>Evaluating the model on the sample inputs\<close>

lemma make_sample:
  "make_listing ts (sample_data ''widget'' ''7001234567'') =
     \<lparr>link = ''https://example.org/abc/d/widget/7001234567.html'', title = ''widget'',
      cl_id = ''7001234567'', screenshot_path = Some [], time_posted = ''3h ago'',
      location = ''Brooklyn'', time_scraped = ts, notified = False\<rparr>"
  "make_listing ts (sample_data ''sofa'' ''7001234568'') =
     \<lparr>link = ''https://example.org/abc/d/sofa/7001234568.html'', title = ''sofa'',
      cl_id = ''7001234568'', screenshot_path = Some [], time_posted = ''3h ago'',
      location = ''Brooklyn'', time_scraped = ts, notified = False\<rparr>"
  "make_listing ts (sample_data ''lamp'' ''7001234569'') =
     \<lparr>link = ''https://example.org/abc/d/lamp/7001234569.html'', title = ''lamp'',
      cl_id = ''7001234569'', screenshot_path = Some [], time_posted = ''3h ago'',
      location = ''Brooklyn'', time_scraped = ts, notified = False\<rparr>"
  "make_listing ts (sample_data ''desk'' ''7001234570'') =
     \<lparr>link = ''https://example.org/abc/d/desk/7001234570.html'', title = ''desk'',
      cl_id = ''7001234570'', screenshot_path = Some [], time_posted = ''3h ago'',
      location = ''Brooklyn'', time_scraped = ts, notified = False\<rparr>"
  "make_listing ts (sample_data ''bike'' ''7001234571'') =
     \<lparr>link = ''https://example.org/abc/d/bike/7001234571.html'', title = ''bike'',
      cl_id = ''7001234571'', screenshot_path = Some [], time_posted = ''3h ago'',
      location = ''Brooklyn'', time_scraped = ts, notified = False\<rparr>"
  by (simp_all add: make_listing_def sample_data_def split_def removesuffix_def)

lemmas run_defs =
  main_loop_def run_cycle_def enumerate_eq_zip range_MAX_RETRIES attempt_def
  session_scope_def process_listings_def process_record_def query_first_def session_add_def session_commit_def
  session_rollback_def send_notifications_def send_notification_events program_env_def
  caller_env_def globals_with_db_def never_def sample_config_def is_sqlalchemy_error_def
  new_session_def set_flag_def fault_at_def
  session_on_def sample_listing_def make_sample

subsection \<open>A URL whose retries are exhausted\<close>

lemma visit_urls_failing:
  "visit_urls E cfg c before st = (Inr (), st1, evs1) \<Longrightarrow>
   retry_loop E cfg c i url [0..<MAX_RETRIES] st1 = (Inl e, st2, evs2) \<Longrightarrow>
   visit_urls E cfg c (before @ (i, url) # after) st = (Inl e, st2, evs1 @ evs2)"
proof (induction before arbitrary: st evs1)
  case Nil
  then show ?case by simp
next
  case (Cons p before)
  obtain j u where p: "p = (j, u)" by (cases p)
  from Cons.prems(1) p obtain sta evsa evsb where
    a: "retry_loop E cfg c j u [0..<MAX_RETRIES] st = (Inr (), sta, evsa)" and
    b: "visit_urls E cfg c before sta = (Inr (), st1, evsb)" and
    e: "evs1 = evsa @ evsb"
    by (auto split: prod.splits sum.splits)
  from Cons.IH [OF b Cons.prems(2)] a e p show ?case by simp
qed

lemma attempt_initial_run:
  "attempt E cfg c i url retry st = (r, st', evs) \<Longrightarrow> initial_run st' = initial_run st"
  by (auto simp: attempt_def split: fetch.splits prod.splits sum.splits if_splits)

lemma retry_loop_initial_run:
  "retry_loop E cfg c i url rs st = (r, st', evs) \<Longrightarrow> initial_run st' = initial_run st"
proof (induction rs arbitrary: st r st' evs)
  case Nil
  then show ?case by simp
next
  case (Cons retry rs)
  obtain ra sa ea where a: "attempt E cfg c i url retry st = (ra, sa, ea)"
    by (cases "attempt E cfg c i url retry st")
  obtain rb sb eb where b: "retry_loop E cfg c i url rs sa = (rb, sb, eb)"
    by (cases "retry_loop E cfg c i url rs sa")
  from Cons.prems a b attempt_initial_run [OF a] Cons.IH [OF b] show ?case
    by (cases ra) (auto split: if_splits)
qed

lemma visit_urls_initial_run:
  "visit_urls E cfg c us st = (r, st', evs) \<Longrightarrow> initial_run st' = initial_run st"
proof (induction us arbitrary: st r st' evs)
  case Nil
  then show ?case by simp
next
  case (Cons p us)
  obtain i url where p: "p = (i, url)" by (cases p)
  obtain ra sa ea where a: "retry_loop E cfg c i url [0..<MAX_RETRIES] st = (ra, sa, ea)"
    by (cases "retry_loop E cfg c i url [0..<MAX_RETRIES] st")
  obtain rb sb eb where b: "visit_urls E cfg c us sa = (rb, sb, eb)"
    by (cases "visit_urls E cfg c us sa")
  from Cons.prems p a b retry_loop_initial_run [OF a] Cons.IH [OF b] show ?case
    by (cases ra) auto
qed

text \<open>
  C5, as stated, fails: with two URLs of which the first times out at every attempt,
  the cycle ends after the third attempt on the first URL, in the handler of lines
  495-497; the second URL is not visited in that cycle.
\<close>

theorem C5_second_url_skipped:
  "run_cycle (program_env (\<lambda>c i r. if i = 0 then LoadTimeout else Loaded []) never)
      (sample_config [''https://example.org/one'', ''https://example.org/two''] True) 0
      \<lparr>store = session_on [], initial_run = False\<rparr>
   = (\<lparr>store = session_on [], initial_run = False\<rparr>,
      [Attempt ''https://example.org/one'' 0,
       LogError (FailedToInitializeBrowser PlaywrightTimeoutError),
       LogError (TimeoutOnAttempt 1), RandomSleep 5 10,
       Attempt ''https://example.org/one'' 1,
       LogError (FailedToInitializeBrowser PlaywrightTimeoutError),
       LogError (TimeoutOnAttempt 2), RandomSleep 10 20,
       Attempt ''https://example.org/one'' 2,
       LogError (FailedToInitializeBrowser PlaywrightTimeoutError),
       LogError (CriticalErrorInMainLoop PlaywrightTimeoutError), RandomSleep 30 60])
   \<and> attempts_of ''https://example.org/two''
        (snd (run_cycle (program_env (\<lambda>c i r. if i = 0 then LoadTimeout else Loaded []) never)
           (sample_config [''https://example.org/one'', ''https://example.org/two''] True) 0
           \<lparr>store = session_on [], initial_run = False\<rparr>)) = []"
  by (simp add: run_cycle_def sample_config_def enumerate_eq_zip upt_rec
      range_MAX_RETRIES attempt_def program_env_def MAX_RETRIES_def)

text \<open>
  C5, amended. When the retry loop of a URL ends with an exception, after the URLs
  before it were visited without one, the exception leaves the loop over the URLs: the
  cycle consists of the events of the URLs before it and of the failed URL, followed by
  the log entry of the handler around the whole cycle and a sleep of 30 to 60 seconds.
  The URLs after it are not visited in that cycle, line 478 is not reached, so the
  first-cycle flag is what it was, and the scheduler goes on with its next cycle.
\<close>

theorem C5_failure_ends_cycle:
  assumes "urls cfg = before @ url # after"
    and "visit_urls E cfg c (enumerate 0 before) st = (Inr (), st1, evs1)"
    and "retry_loop E cfg c (length before) url [0..<MAX_RETRIES] st1 = (Inl e, st2, evs2)"
  shows "run_cycle E cfg c st =
     (st2, evs1 @ evs2 @
        [LogError (if e = DatabaseError then CriticalDatabaseError e
                   else CriticalErrorInMainLoop e),
         RandomSleep 30 60]) \<and>
     initial_run st2 = initial_run st"
proof -
  have "enumerate 0 (urls cfg) =
      enumerate 0 before @ (length before, url) # enumerate (Suc (length before)) after"
    by (simp add: assms(1) enumerate_append_eq)
  then have "visit_urls E cfg c (enumerate 0 (urls cfg)) st = (Inl e, st2, evs1 @ evs2)"
    using visit_urls_failing [OF assms(2) assms(3)] by simp
  then show ?thesis
    using visit_urls_initial_run [OF assms(2)] retry_loop_initial_run [OF assms(3)]
    by (simp add: run_cycle_def)
qed

theorem C5_failure_ends_cycle_witness:
  "run_cycle (program_env (\<lambda>c i r. if i = 1 then LoadTimeout else Loaded []) never)
      (sample_config [''https://example.org/one'', ''https://example.org/two'',
         ''https://example.org/three''] True) 0
      \<lparr>store = session_on [], initial_run = True\<rparr>
   = (\<lparr>store = session_on [], initial_run = True\<rparr>,
      [Attempt ''https://example.org/one'' 0, RandomSleep 2 5,
       Attempt ''https://example.org/two'' 0,
       LogError (FailedToInitializeBrowser PlaywrightTimeoutError),
       LogError (TimeoutOnAttempt 1), RandomSleep 5 10,
       Attempt ''https://example.org/two'' 1,
       LogError (FailedToInitializeBrowser PlaywrightTimeoutError),
       LogError (TimeoutOnAttempt 2), RandomSleep 10 20,
       Attempt ''https://example.org/two'' 2,
       LogError (FailedToInitializeBrowser PlaywrightTimeoutError),
       LogError (CriticalErrorInMainLoop PlaywrightTimeoutError), RandomSleep 30 60])"
  using C5_failure_ends_cycle [of
      "sample_config [''https://example.org/one'', ''https://example.org/two'',
         ''https://example.org/three''] True"
      "[''https://example.org/one'']" "''https://example.org/two''"
      "[''https://example.org/three'']"
      "program_env (\<lambda>c i r. if i = 1 then LoadTimeout else Loaded []) never" 0
      "\<lparr>store = session_on [], initial_run = True\<rparr>"
      "\<lparr>store = session_on [], initial_run = True\<rparr>"
      "[Attempt ''https://example.org/one'' 0, RandomSleep 2 5]"
      PlaywrightTimeoutError
      "\<lparr>store = session_on [], initial_run = True\<rparr>"
      "[Attempt ''https://example.org/two'' 0,
        LogError (FailedToInitializeBrowser PlaywrightTimeoutError),
        LogError (TimeoutOnAttempt 1), RandomSleep 5 10,
        Attempt ''https://example.org/two'' 1,
        LogError (FailedToInitializeBrowser PlaywrightTimeoutError),
        LogError (TimeoutOnAttempt 2), RandomSleep 10 20,
        Attempt ''https://example.org/two'' 2,
        LogError (FailedToInitializeBrowser PlaywrightTimeoutError)]"]
  by (simp add: sample_config_def enumerate_eq_zip upt_rec range_MAX_RETRIES attempt_def
      program_env_def MAX_RETRIES_def)

subsection \<open>The first cycle and the second\<close>

lemma first_cycle_suppression:
  "initial_run st \<Longrightarrow> web E c i retry = Loaded ds \<Longrightarrow>
   attempt E cfg c i url retry st =
     (Inr (), st,
      Attempt url retry # (if int i < int (length (urls cfg)) - 1 then [RandomSleep 2 5] else []))"
  by (simp add: attempt_def)

text \<open>
  C3. The claim: the first cycle extracts but neither stores nor notifies, and the same
  records, extracted again in the second cycle, are inserted and made
  notify-candidates. The first half holds (\<open>first_cycle_suppression\<close>). The second
  does not: run for two cycles on an empty table with one URL whose page yields one
  record each time, the program visits the page twice, calls the policy in the second
  cycle only, and there the lookup of the record raises NameError. The table is empty
  afterwards and no batch was notified.
\<close>

theorem C3_second_cycle_inserts_nothing:
  "main_loop (program_env (\<lambda>c i r. Loaded [sample_data ''widget'' ''7001234567'']) never)
      (sample_config [''https://example.org/search''] True) [] 2
   = (\<lparr>store = \<lparr>committed = [], rows = [], ops = 1, status = Active\<rparr>,
      initial_run = False\<rparr>,
      [Attempt ''https://example.org/search'' 0, CycleSleep,
       Attempt ''https://example.org/search'' 0,
       LogError (ErrorProcessingListing ''widget'' NameError), Commit [], CycleSleep])"
  by (simp add: main_loop_def numeral_2_eq_2 run_cycle_def sample_config_def enumerate_eq_zip
      range_MAX_RETRIES attempt_def program_env_def session_scope_def
      process_listings_unbound main_globals_db never_def session_commit_def new_session_def
      make_listing_def sample_data_def)

subsection \<open>What the scheduler preserves\<close>

text \<open>
  Whatever property \<open>I\<close> of the table and \<open>P\<close> of the notified batches one call of
  \<^verbatim>\<open>process_listings\<close> maintains, the session scope, the attempt, the retry loop, the
  loop over the URLs, the cycle and any number of cycles maintain as well.
\<close>

lemma query_first_session:
  "query_first E k s = (r, s') \<Longrightarrow>
   committed s' = committed s \<and> (rows s' = rows s \<or> rows s' = committed s)"
  by (auto simp: query_first_def
      split: option.splits pyval.splits session_status.splits fault.splits)

lemma query_first_found:
  "query_first E k s = (Inr x, s') \<Longrightarrow>
   x = find (\<lambda>r. cl_id r = k) (rows s) \<and> rows s' = rows s"
  by (auto simp: query_first_def
      split: option.splits pyval.splits session_status.splits fault.splits)

lemma session_commit_cases:
  "session_commit E s = (r, s') \<Longrightarrow>
   (r = Inl SQLAlchemyError \<and> committed s' = committed s \<and>
      (rows s' = rows s \<or> rows s' = committed s)) \<or>
   (r = Inr () \<and> committed s' = rows s \<and> rows s' = rows s) \<or>
   (r = Inr () \<and> committed s' = committed s \<and> rows s' = committed s)"
  by (auto simp: session_commit_def split: session_status.splits fault.splits)

lemma session_scope_generic:
  assumes step: "\<And>s r s' evs. I (committed s) \<Longrightarrow> I (rows s) \<Longrightarrow> body s = (r, s', evs) \<Longrightarrow>
       I (committed s') \<and> I (rows s') \<and> list_all P (batches evs)"
    and "I (committed s0)"
    and "session_scope E body s0 = (r, s', evs)"
  shows "I (committed s') \<and> list_all P (batches evs)"
proof -
  obtain rb sb eb where b: "body (new_session s0) = (rb, sb, eb)"
    by (cases "body (new_session s0)")
  have sb: "I (committed sb) \<and> I (rows sb) \<and> list_all P (batches eb)"
    by (rule step [OF _ _ b]) (simp_all add: assms(2) new_session_def)
  show ?thesis
  proof (cases rb)
    case (Inl e)
    with b assms(3) sb show ?thesis
      by (auto simp: session_scope_def session_rollback_def batches_append split: if_splits)
  next
    case (Inr u)
    obtain rc sc where c: "session_commit E sb = (rc, sc)" by (cases "session_commit E sb")
    from session_commit_cases [OF c] b Inr c assms(3) sb show ?thesis
      by (auto simp: session_scope_def session_rollback_def batches_append)
  qed
qed

lemma attempt_generic:
  assumes step: "\<And>ls s r s' evs. I (committed s) \<Longrightarrow> I (rows s) \<Longrightarrow>
       process_listings E ls s cfg = (r, s', evs) \<Longrightarrow>
       I (committed s') \<and> I (rows s') \<and> list_all P (batches evs)"
    and "I (committed (store st))"
    and "attempt E cfg c i url retry st = (r, st', evs)"
  shows "I (committed (store st')) \<and> list_all P (batches evs)"
proof (cases "web E c i retry")
  case LoadTimeout
  with assms(2,3) show ?thesis by (auto simp: attempt_def)
next
  case LoadFailed
  with assms(2,3) show ?thesis by (auto simp: attempt_def)
next
  case (Loaded ds)
  show ?thesis
  proof (cases "initial_run st")
    case True
    with Loaded assms(2,3) show ?thesis by (auto simp: attempt_def)
  next
    case False
    obtain rs ss es where s:
      "session_scope E (\<lambda>s. process_listings E (map (make_listing (now E c)) ds) s cfg) (store st)
         = (rs, ss, es)"
      by (cases "session_scope E (\<lambda>s. process_listings E (map (make_listing (now E c)) ds) s cfg) (store st)")
    have "I (committed ss) \<and> list_all P (batches es)"
      by (rule session_scope_generic [where I = I and P = P, OF _ assms(2) s]) (rule step)
    with Loaded False s assms(3) show ?thesis
      by (cases rs) (auto simp: attempt_def batches_append)
  qed
qed

lemma retry_loop_generic:
  assumes step: "\<And>ls s r s' evs. I (committed s) \<Longrightarrow> I (rows s) \<Longrightarrow>
       process_listings E ls s cfg = (r, s', evs) \<Longrightarrow>
       I (committed s') \<and> I (rows s') \<and> list_all P (batches evs)"
  shows "I (committed (store st)) \<Longrightarrow> retry_loop E cfg c i url rs st = (r, st', evs) \<Longrightarrow>
     I (committed (store st')) \<and> list_all P (batches evs)"
proof (induction rs arbitrary: st r st' evs)
  case Nil
  then show ?case by simp
next
  case (Cons retry rs)
  obtain ra sa ea where a: "attempt E cfg c i url retry st = (ra, sa, ea)"
    by (cases "attempt E cfg c i url retry st")
  have A: "I (committed (store sa)) \<and> list_all P (batches ea)"
    by (rule attempt_generic [where I = I and P = P, OF _ Cons.prems(1) a]) (rule step)
  obtain rb sb eb where b: "retry_loop E cfg c i url rs sa = (rb, sb, eb)"
    by (cases "retry_loop E cfg c i url rs sa")
  have B: "I (committed (store sb)) \<and> list_all P (batches eb)"
    using Cons.IH [OF _ b] A by simp
  from Cons.prems(2) a b A B show ?case
    by (cases ra) (auto simp: batches_append split: if_splits)
qed

lemma visit_urls_generic:
  assumes step: "\<And>ls s r s' evs. I (committed s) \<Longrightarrow> I (rows s) \<Longrightarrow>
       process_listings E ls s cfg = (r, s', evs) \<Longrightarrow>
       I (committed s') \<and> I (rows s') \<and> list_all P (batches evs)"
  shows "I (committed (store st)) \<Longrightarrow> visit_urls E cfg c us st = (r, st', evs) \<Longrightarrow>
     I (committed (store st')) \<and> list_all P (batches evs)"
proof (induction us arbitrary: st r st' evs)
  case Nil
  then show ?case by simp
next
  case (Cons p us)
  obtain i url where p: "p = (i, url)" by (cases p)
  obtain ra sa ea where a: "retry_loop E cfg c i url [0..<MAX_RETRIES] st = (ra, sa, ea)"
    by (cases "retry_loop E cfg c i url [0..<MAX_RETRIES] st")
  have A: "I (committed (store sa)) \<and> list_all P (batches ea)"
    by (rule retry_loop_generic [where I = I and P = P, OF _ Cons.prems(1) a]) (rule step)
  obtain rb sb eb where b: "visit_urls E cfg c us sa = (rb, sb, eb)"
    by (cases "visit_urls E cfg c us sa")
  have B: "I (committed (store sb)) \<and> list_all P (batches eb)"
    using Cons.IH [OF _ b] A by simp
  from Cons.prems(2) p a b A B show ?case
    by (cases ra) (auto simp: batches_append)
qed

lemma run_cycle_generic:
  assumes step: "\<And>ls s r s' evs. I (committed s) \<Longrightarrow> I (rows s) \<Longrightarrow>
       process_listings E ls s cfg = (r, s', evs) \<Longrightarrow>
       I (committed s') \<and> I (rows s') \<and> list_all P (batches evs)"
    and "I (committed (store st))"
    and "run_cycle E cfg c st = (st', evs)"
  shows "I (committed (store st')) \<and> list_all P (batches evs)"
proof -
  obtain ra sa ea where a: "visit_urls E cfg c (enumerate 0 (urls cfg)) st = (ra, sa, ea)"
    by (cases "visit_urls E cfg c (enumerate 0 (urls cfg)) st")
  have A: "I (committed (store sa)) \<and> list_all P (batches ea)"
    by (rule visit_urls_generic [where I = I and P = P, OF _ assms(2) a]) (rule step)
  from assms(3) a A show ?thesis
    by (cases ra) (auto simp: run_cycle_def batches_append split: if_splits)
qed

lemma run_cycles_generic:
  assumes step: "\<And>ls s r s' evs. I (committed s) \<Longrightarrow> I (rows s) \<Longrightarrow>
       process_listings E ls s cfg = (r, s', evs) \<Longrightarrow>
       I (committed s') \<and> I (rows s') \<and> list_all P (batches evs)"
  shows "I (committed (store st)) \<Longrightarrow> run_cycles E cfg c n st = (st', evs) \<Longrightarrow>
     I (committed (store st')) \<and> list_all P (batches evs)"
proof (induction n arbitrary: c st st' evs)
  case 0
  then show ?case by simp
next
  case (Suc n)
  obtain sa ea where a: "run_cycle E cfg c st = (sa, ea)" by (cases "run_cycle E cfg c st")
  have A: "I (committed (store sa)) \<and> list_all P (batches ea)"
    by (rule run_cycle_generic [where I = I and P = P, OF _ Suc.prems(1) a]) (rule step)
  obtain sb eb where b: "run_cycles E cfg (Suc c) n sa = (sb, eb)"
    by (cases "run_cycles E cfg (Suc c) n sa")
  have B: "I (committed (store sb)) \<and> list_all P (batches eb)"
    using Suc.IH [OF _ b] A by simp
  from Suc.prems(2) a b A B show ?case by (auto simp: batches_append)
qed

lemma find_append:
  "find P (xs @ ys) = (case find P xs of None \<Rightarrow> find P ys | Some x \<Rightarrow> Some x)"
  by (induction xs) simp_all

lemma find_mark_notified:
  "find (\<lambda>r. cl_id r = k) (mark_notified j t) =
     map_option (\<lambda>r. if j = k then r\<lparr>notified := True\<rparr> else r) (find (\<lambda>r. cl_id r = k) t)"
  by (induction t) (auto simp: option.map_ident)

lemma is_notified_append: "is_notified k t \<Longrightarrow> is_notified k (t @ u)"
  by (simp add: is_notified_def find_append split: option.splits)

lemma is_notified_mark: "is_notified k t \<Longrightarrow> is_notified k (mark_notified j t)"
  by (auto simp: is_notified_def find_mark_notified split: option.splits)

lemma find_cl_id: "find (\<lambda>r. cl_id r = k) t = Some r \<Longrightarrow> cl_id r = k"
  by (induction t) (auto split: if_splits)

lemma cl_id_set_flag1: "cl_id (set_flag k x) = cl_id x"
  by (simp add: set_flag_def)

lemma cl_id_set_flag: "map cl_id (map (set_flag k) xs) = map cl_id xs"
  by (induction xs) (simp_all add: cl_id_set_flag1)

lemma process_record_general:
  assumes "process_record E l (s, new, evs) = (s', new', evs')"
  shows "committed s' = committed s \<and> batches evs' = batches evs \<and>
     (\<exists>more. map cl_id new' = map cl_id new @ more)"
proof -
  obtain r s1 where q: "query_first E (cl_id l) s = (r, s1)"
    by (cases "query_first E (cl_id l) s")
  from assms q query_first_session [OF q] show ?thesis
    by (auto simp: process_record_def session_add_def batches_append cl_id_set_flag1
        split: sum.splits option.splits if_splits)
qed

lemma process_record_keeps_notified:
  assumes "is_notified k (rows s)" and "is_notified k (committed s)"
    and "process_record E l (s, new, evs) = (s', new', evs')"
  shows "is_notified k (rows s') \<and>
     (\<exists>more. map cl_id new' = map cl_id new @ more \<and> k \<notin> set more)"
proof -
  obtain r s1 where q: "query_first E (cl_id l) s = (r, s1)"
    by (cases "query_first E (cl_id l) s")
  note same = query_first_session [OF q]
  show ?thesis
  proof (cases r)
    case (Inl e)
    with assms q same show ?thesis by (auto simp: process_record_def)
  next
    case (Inr x)
    with q have x: "find (\<lambda>r. cl_id r = cl_id l) (rows s) = x" and r1: "rows s1 = rows s"
      using query_first_found by blast+
    show ?thesis
    proof (cases x)
      case None
      with x assms(1) have "cl_id l \<noteq> k"
        by (auto simp: is_notified_def)
      with assms q Inr None r1 show ?thesis
        by (auto simp: process_record_def session_add_def is_notified_append)
    next
      case (Some existing)
      show ?thesis
      proof (cases "notified existing")
        case True
        with assms q Inr Some r1 show ?thesis by (simp add: process_record_def)
      next
        case False
        with x Some assms(1) have ne: "cl_id l \<noteq> k"
          by (auto simp: is_notified_def)
        from x Some have "cl_id existing = cl_id l"
          using find_cl_id [of "cl_id l" "rows s" existing] by simp
        with ne assms q Inr Some r1 False show ?thesis
          by (auto simp: process_record_def is_notified_mark cl_id_set_flag1)
      qed
    qed
  qed
qed

lemma process_loop_general:
  "process_loop E ls (s, new, evs) = (s', new', evs') \<Longrightarrow>
   committed s' = committed s \<and> batches evs' = batches evs \<and>
   (\<exists>more. map cl_id new' = map cl_id new @ more)"
proof (induction ls arbitrary: s new evs)
  case Nil
  then show ?case by simp
next
  case (Cons l ls)
  obtain s1 new1 evs1 where r: "process_record E l (s, new, evs) = (s1, new1, evs1)"
    by (cases "process_record E l (s, new, evs)")
  from Cons.prems r have "process_loop E ls (s1, new1, evs1) = (s', new', evs')" by simp
  from Cons.IH [OF this] process_record_general [OF r] show ?case by auto
qed

lemma process_loop_keeps_notified:
  "is_notified k (rows s) \<Longrightarrow> is_notified k (committed s) \<Longrightarrow>
   process_loop E ls (s, new, evs) = (s', new', evs') \<Longrightarrow>
   is_notified k (rows s') \<and>
   (\<exists>more. map cl_id new' = map cl_id new @ more \<and> k \<notin> set more)"
proof (induction ls arbitrary: s new evs)
  case Nil
  then show ?case by simp
next
  case (Cons l ls)
  obtain s1 new1 evs1 where r: "process_record E l (s, new, evs) = (s1, new1, evs1)"
    by (cases "process_record E l (s, new, evs)")
  from Cons.prems r have rest: "process_loop E ls (s1, new1, evs1) = (s', new', evs')" by simp
  from process_record_general [OF r] Cons.prems(2)
  have c1: "is_notified k (committed s1)" by simp
  from process_record_keeps_notified [OF Cons.prems(1,2) r]
  have r1: "is_notified k (rows s1)"
    and g1: "\<exists>more. map cl_id new1 = map cl_id new @ more \<and> k \<notin> set more" by simp_all
  from Cons.IH [OF r1 c1 rest] g1 show ?case by auto
qed

lemma notified_ids_append: "notified_ids (xs @ ys) = notified_ids xs @ notified_ids ys"
  by (simp add: notified_ids_def batches_append)

lemma send_notifications_exclude:
  "k \<notin> set (map cl_id new) \<Longrightarrow>
   list_all (\<lambda>b. k \<notin> set (map cl_id b)) (batches (send_notifications E cfg new))"
  by (auto simp: send_notifications_batches list_all_iff)

lemma process_listings_keeps_notified:
  assumes "is_notified k (committed s)" and "is_notified k (rows s)"
    and "process_listings E ls s cfg = (r, s', evs)"
  shows "is_notified k (committed s') \<and> is_notified k (rows s') \<and>
     list_all (\<lambda>b. k \<notin> set (map cl_id b)) (batches evs)"
proof -
  obtain s1 new ev1 where l: "process_loop E ls (s, [], []) = (s1, new, ev1)"
    by (cases "process_loop E ls (s, [], [])")
  from process_loop_keeps_notified [OF assms(2,1) l]
  have n1: "is_notified k (rows s1)" and new: "k \<notin> set (map cl_id new)" by auto
  from process_loop_general [OF l]
  have c1: "committed s1 = committed s" and b1: "batches ev1 = []" by simp_all
  obtain rc s2 where c: "session_commit E s1 = (rc, s2)" by (cases "session_commit E s1")
  from session_commit_cases [OF c] assms(1,3) l n1 c1 b1 c send_notifications_exclude [OF new]
  show ?thesis
    by (auto simp: process_listings_def session_rollback_def batches_append split: if_splits)
qed


text \<open>
  Through \<^verbatim>\<open>process_listings\<close>: when the loop leaves a non-empty notify set and the
  commit succeeds, the batches notified are the whole set, or its records one by one.
\<close>

lemma process_listings_batches:
  assumes "process_loop E listings (s, [], []) = (s1, new, evs)" and "new \<noteq> []"
    and "status s1 = Active" and "store_fault E (ops s1) = NoFault"
  shows "batches (snd (snd (process_listings E listings s cfg))) =
     (if combine_notifications cfg then [new] else map (\<lambda>l. [l]) new)"
  using assms process_loop_general [OF assms(1)]
  by (simp add: process_listings_def session_commit_def batches_append
      send_notifications_batches)

lemma main_loop_generic:
  assumes step: "\<And>ls s r s' evs. I (committed s) \<Longrightarrow> I (rows s) \<Longrightarrow>
       process_listings E ls s cfg = (r, s', evs) \<Longrightarrow>
       I (committed s') \<and> I (rows s') \<and> list_all P (batches evs)"
    and "I table"
    and "main_loop E cfg table n = (st', evs)"
  shows "I (committed (store st')) \<and> list_all P (batches evs)"
proof -
  let ?st = "\<lparr>store = \<lparr>committed = table, rows = table, ops = 0, status = Active\<rparr>,
      initial_run = True\<rparr>"
  have r: "run_cycles E cfg 0 n ?st = (st', evs)"
    using assms(3) by (simp add: main_loop_def)
  have i: "I (committed (store ?st))"
    using assms(2) by simp
  show ?thesis
    by (rule run_cycles_generic [where I = I and P = P, OF _ i r]) (rule step)
qed

text \<open>
  C10. If the table holds an identity with the flag set when the program starts, then
  in any number of cycles, whatever the pages yield, whichever round trips fail and
  whatever the namespace binds, no batch passed to \<^verbatim>\<open>send_notification\<close> holds a record
  of that identity.
\<close>

theorem C10_notified_never_renotified:
  assumes "is_notified k table"
  shows "k \<notin> set (notified_ids (snd (main_loop E cfg table n)))"
proof -
  obtain st' evs where m: "main_loop E cfg table n = (st', evs)"
    by (cases "main_loop E cfg table n")
  have "is_notified k (committed (store st')) \<and>
      list_all (\<lambda>b. k \<notin> set (map cl_id b)) (batches evs)"
    by (rule main_loop_generic [where I = "is_notified k", OF _ assms m])
      (rule process_listings_keeps_notified)
  then have "\<forall>b \<in> set (batches evs). k \<notin> set (map cl_id b)"
    by (simp add: list_all_iff)
  with m show ?thesis
    by (auto simp: notified_ids_def)
qed


theorem C10_notified_never_renotified_witness:
  "notified_ids (snd (main_loop
      (caller_env (\<lambda>c i r. Loaded [sample_data ''widget'' ''7001234567'',
                                      sample_data ''sofa'' ''7001234568'']) never)
      (sample_config [''https://example.org/search''] True)
      [(sample_listing ''widget'' ''7001234567'')\<lparr>notified := True\<rparr>] 3))
     = [''7001234568'', ''7001234568''] \<and>
   ''7001234567'' \<notin> set (notified_ids (snd (main_loop
      (caller_env (\<lambda>c i r. Loaded [sample_data ''widget'' ''7001234567'',
                                      sample_data ''sofa'' ''7001234568'']) never)
      (sample_config [''https://example.org/search''] True)
      [(sample_listing ''widget'' ''7001234567'')\<lparr>notified := True\<rparr>] 3)))"
  using C10_notified_never_renotified [of "''7001234567''"
      "[(sample_listing ''widget'' ''7001234567'')\<lparr>notified := True\<rparr>]"
      "caller_env (\<lambda>c i r. Loaded [sample_data ''widget'' ''7001234567'',
                                      sample_data ''sofa'' ''7001234568'']) never"
      "sample_config [''https://example.org/search''] True" 3]
  by (simp add: run_defs eval_nat_numeral is_notified_def notified_ids_def)

lemma batches_logs: "batches (map LogError ms) = []"
  by (induction ms) simp_all

lemma process_listings_unbound_quiet:
  assumes "globals E ''db'' = None" and "process_listings E ls s cfg = (r, s', evs)"
  shows "True \<and> True \<and> list_all (\<lambda>b. False) (batches evs)"
proof -
  have "evs = map LogError (map (\<lambda>l. ErrorProcessingListing (title l) NameError) ls)"
    using assms by (simp add: process_listings_unbound comp_def)
  then show ?thesis by (simp only: batches_logs) simp
qed

lemma program_never_notifies:
  assumes "globals E ''db'' = None"
  shows "batches (snd (main_loop E cfg table n)) = []"
proof -
  obtain st' evs where m: "main_loop E cfg table n = (st', evs)"
    by (cases "main_loop E cfg table n")
  have "True \<and> list_all (\<lambda>b. False) (batches evs)"
    by (rule main_loop_generic [where I = "\<lambda>t. True" and P = "\<lambda>b. False", OF _ TrueI m])
      (rule process_listings_unbound_quiet [OF assms])
  then have "batches evs = []"
    by (cases "batches evs") simp_all
  with m show ?thesis by simp
qed

text \<open>
  Under the namespace of main.py no record is ever notified. With \<^verbatim>\<open>db\<close> bound in the
  namespace the lookup works, and then the policy does not keep to one batch per record.
\<close>


subsection \<open>The flag and the dispatch\<close>



















subsection \<open>The transaction\<close>











subsection \<open>Meta-field split\<close>

lemma split_meta_middle_dot:
  "split_meta_with MIDDLE_DOT meta_3h_ago_Brooklyn = Some (js ''3h ago'', js ''Brooklyn'')"
  by (simp add: split_meta_with_def split_def MIDDLE_DOT_def meta_3h_ago_Brooklyn_def js_def
      js_trim_def is_js_white_space_def js_white_space_def)

text \<open>
  C9. The claim: the meta text \<^verbatim>\<open>3h ago . Brooklyn\<close> (with the middle dot) is split into
  the posted time \<^verbatim>\<open>3h ago\<close> and the location \<^verbatim>\<open>Brooklyn\<close>. The code splits on the
  two-character literal of line 214, which does not occur in that text: the split yields
  one piece, the location is undefined and no field pair is produced.
\<close>

theorem C9_split_meta_example_fails:
  "split_meta meta_3h_ago_Brooklyn = None \<and>
   split META_SEPARATOR meta_3h_ago_Brooklyn = [meta_3h_ago_Brooklyn]"
  by (simp add: split_meta_def split_meta_with_def split_def META_SEPARATOR_def
      meta_3h_ago_Brooklyn_def js_def)

end
